theory Spec2Isabelle
  imports Main "HOL-Library.Word"
begin

section \<open>The model handle bridge: \<open>llama_jni.cpp\<close>\<close>

text \<open>
  The bridge is compiled for a 64-bit target: a \<open>LlamaModel*\<close>, a \<open>size_t\<close> and a
  \<open>jlong\<close> are 64 bits wide, so the two \<open>reinterpret_cast\<close>s between pointer and
  \<open>jlong\<close> and the \<open>static_cast<jlong>\<close> of a \<open>size_t\<close> keep every bit; \<open>jlong\<close>
  and \<open>jint\<close> are read as two's complement (\<open>sint\<close>). A \<open>jfloat\<close> is carried as its
  32-bit pattern; the code never inspects one. Strings are byte sequences: a
  \<open>jstring\<close> is represented by the bytes that \<open>GetStringUTFChars\<close> yields for it and
  that \<open>NewStringUTF\<close> is given. Exhaustion of memory is outside the model.
\<close>

type_synonym addr = "64 word"
type_synonym size_t = "64 word"
type_synonym jlong = "64 word"
type_synonym jint = "32 word"
type_synonym jsize = "32 word"
type_synonym jfloat = "32 word"

subsection \<open>The model structure and the native heap\<close>

record LlamaModel =
  model_path :: string
  vocab_size :: size_t
  context_size :: size_t
  loaded :: bool

text \<open>The constructor \<open>LlamaModel(const std::string& path)\<close>.\<close>

definition LlamaModel_ctor :: "string \<Rightarrow> LlamaModel" where
  "LlamaModel_ctor path =
     \<lparr>model_path = path, vocab_size = 32000, context_size = 2048, loaded = False\<rparr>"

text \<open>
  The native heap holds the live \<open>LlamaModel\<close> objects by address. An address with no
  entry holds no live object: it was never allocated, or its object was deleted.
\<close>

type_synonym heap = "addr \<rightharpoonup> LlamaModel"

text \<open>
  The ways a call can go wrong, as values. Three are undefined behaviour of the C++
  code: reading a member through a pointer to no live object, deleting such a pointer,
  and an unsigned remainder by zero. The fourth is \<open>NewIntArray\<close> being handed a
  negative length: no array comes into being for \<open>SetIntArrayRegion\<close> to fill and
  for the call to return.
\<close>

datatype fault = InvalidRead | InvalidFree | DivideByZero | NegativeArraySize

text \<open>
  The characters of a NUL-terminated C string: what the \<open>std::string(const char*)\<close>
  constructor copies and what \<open>NewStringUTF\<close> reads.
\<close>

definition c_string :: "string \<Rightarrow> string" where
  "c_string s = takeWhile (\<lambda>c. c \<noteq> CHR 0x00) s"

text \<open>
  What \<open>new\<close> may return: a non-null address at which no object lives. The address is
  an input of \<open>nativeLoadModel\<close>, so nothing is assumed about the allocator beyond this;
  in particular it may hand out again the address of a deleted object.
\<close>

definition new_ok :: "heap \<Rightarrow> addr \<Rightarrow> bool" where
  "new_ok h p \<longleftrightarrow> p \<noteq> 0 \<and> h p = None"

subsection \<open>The exported functions\<close>

text \<open>\<open>nativeLoadModel\<close>; \<open>p\<close> is the address that \<open>new LlamaModel(path)\<close> returns.\<close>

definition nativeLoadModel :: "heap \<Rightarrow> addr \<Rightarrow> string \<Rightarrow> heap \<times> jlong" where
  "nativeLoadModel h p modelPath =
     (let path = c_string modelPath;
          model = LlamaModel_ctor path;
          model = model\<lparr>loaded := True\<rparr>
      in (h(p \<mapsto> model), p))"

definition nativeGenerate ::
  "heap \<Rightarrow> jlong \<Rightarrow> string \<Rightarrow> jint \<Rightarrow> jfloat \<Rightarrow> jfloat \<Rightarrow> jint \<Rightarrow> fault + string" where
  "nativeGenerate h modelPtr prompt maxTokens temperature topP topK =
     (if modelPtr = 0 then Inr ''Error: Model not loaded''
      else case h modelPtr of
        None \<Rightarrow> Inl InvalidRead
      | Some model \<Rightarrow>
          if \<not> loaded model then Inr ''Error: Model not loaded''
          else
            let response = ''Generated response from llama.cpp model. '';
                response = response @ ''This is a placeholder implementation. '';
                response = response @
                  ''In a real implementation, this would use the actual llama.cpp library '';
                response = response @
                  ''to generate text based on the GGUF model loaded from: '';
                response = response @ model_path model
            in Inr (c_string response))"

definition nativeFreeModel :: "heap \<Rightarrow> jlong \<Rightarrow> fault + heap" where
  "nativeFreeModel h modelPtr =
     (if modelPtr \<noteq> 0 then
        (case h modelPtr of
           None \<Rightarrow> Inl InvalidFree
         | Some model \<Rightarrow> Inr (h(modelPtr := None)))
      else Inr h)"

text \<open>\<open>nativeGetModelSize\<close> compares the pointer with null and never follows it.\<close>

definition nativeGetModelSize :: "jlong \<Rightarrow> jlong" where
  "nativeGetModelSize modelPtr = (if modelPtr = 0 then 0 else 1024 * 1024 * 500)"

definition nativeGetVocabSize :: "heap \<Rightarrow> jlong \<Rightarrow> fault + jlong" where
  "nativeGetVocabSize h modelPtr =
     (if modelPtr = 0 then Inr 0
      else case h modelPtr of
        None \<Rightarrow> Inl InvalidRead
      | Some model \<Rightarrow> Inr (vocab_size model))"

definition nativeGetContextSize :: "heap \<Rightarrow> jlong \<Rightarrow> fault + jlong" where
  "nativeGetContextSize h modelPtr =
     (if modelPtr = 0 then Inr 0
      else case h modelPtr of
        None \<Rightarrow> Inl InvalidRead
      | Some model \<Rightarrow> Inr (context_size model))"

text \<open>
  The promotion of \<open>input[pos]\<close> from \<open>char\<close> to \<open>int\<close>. Whether \<open>char\<close> is signed
  depends on the ABI (unsigned on ARM, signed on x86), so it is a parameter.
\<close>

definition char_to_int :: "bool \<Rightarrow> char \<Rightarrow> 32 word" where
  "char_to_int char_signed c =
     (if char_signed then scast (of_char c :: 8 word) else ucast (of_char c :: 8 word))"

text \<open>
  The pseudo-token \<open>static_cast<jint>((input[pos] * 31 + pos) % model->vocab_size)\<close>:
  the product is an \<open>int\<close>, it is converted to \<open>size_t\<close> (sign-extended) for the sum
  with \<open>pos\<close>, the remainder is unsigned and the cast keeps its low 32 bits.
\<close>

definition pseudo_token :: "bool \<Rightarrow> size_t \<Rightarrow> string \<Rightarrow> nat \<Rightarrow> jint" where
  "pseudo_token char_signed vocab input pos =
     ucast ((scast (char_to_int char_signed (input ! pos) * 31) + (of_nat pos :: size_t)) mod vocab)"

text \<open>
  The loop \<open>while (pos < input.length())\<close> of \<open>nativeTokenize\<close>. The counter \<open>pos\<close>
  is a \<open>size_t\<close> that stays below the length of a string in memory, so it is a
  natural number here and a \<open>size_t\<close> (\<open>of_nat pos\<close>) where it enters the arithmetic.
\<close>

function tokenize_loop ::
  "bool \<Rightarrow> size_t \<Rightarrow> string \<Rightarrow> nat \<Rightarrow> jint list \<Rightarrow> fault + jint list" where
  "tokenize_loop char_signed vocab input pos tokens =
     (if pos < length input then
        (if vocab = 0 then Inl DivideByZero
         else tokenize_loop char_signed vocab input (Suc pos)
                (tokens @ [pseudo_token char_signed vocab input pos]))
      else Inr tokens)"
  by pat_completeness auto
termination
  by (relation "measure (\<lambda>(char_signed, vocab, input, pos, tokens). length input - pos)") auto

declare tokenize_loop.simps [simp del]

text \<open>
  \<open>nativeTokenize\<close>; the result \<open>None\<close> is the null array. Both
  \<open>NewIntArray(tokens.size())\<close> and \<open>SetIntArrayRegion(result, 0, tokens.size(), ...)\<close>
  take a \<open>jsize\<close>, so the \<open>size_t\<close> \<open>tokens.size()\<close> is narrowed to its low 32
  bits, read as signed (\<open>len\<close>): the array that is returned holds the first \<open>len\<close>
  tokens.
\<close>

definition nativeTokenize ::
  "bool \<Rightarrow> heap \<Rightarrow> jlong \<Rightarrow> string \<Rightarrow> fault + jint list option" where
  "nativeTokenize char_signed h modelPtr text =
     (if modelPtr = 0 then Inr None
      else case h modelPtr of
        None \<Rightarrow> Inl InvalidRead
      | Some model \<Rightarrow>
          if \<not> loaded model then Inr None
          else
            (case tokenize_loop char_signed (vocab_size model) (c_string text) 0 [] of
               Inl e \<Rightarrow> Inl e
             | Inr tokens \<Rightarrow>
                 let len = (ucast (of_nat (length tokens) :: size_t) :: jsize)
                 in if sint len < 0 then Inl NegativeArraySize
                    else Inr (Some (take (nat (sint len)) tokens))))"

text \<open>
  \<open>std::to_string\<close> of an \<open>int\<close>: its decimal digits, with a sign when negative.
  In \<open>nativeDetokenize\<close> below, \<open>len\<close> is the source's \<open>jsize length\<close>.
\<close>

function decimal :: "nat \<Rightarrow> string" where
  "decimal n =
     (if n < 10 then [''0123456789'' ! n]
      else decimal (n div 10) @ [''0123456789'' ! (n mod 10)])"
  by pat_completeness auto
termination
  by (relation "measure (\<lambda>n. n)") auto

declare decimal.simps [simp del]

definition to_string :: "int \<Rightarrow> string" where
  "to_string i = (if i < 0 then CHR ''-'' # decimal (nat (- i)) else decimal (nat i))"

definition nativeDetokenize :: "heap \<Rightarrow> jlong \<Rightarrow> jint list \<Rightarrow> fault + string" where
  "nativeDetokenize h modelPtr tokens =
     (if modelPtr = 0 then Inr ''''
      else case h modelPtr of
        None \<Rightarrow> Inl InvalidRead
      | Some model \<Rightarrow>
          if \<not> loaded model then Inr ''''
          else
            let len = (of_nat (length tokens) :: jsize);
                result = ''Detokenized text from '' @ to_string (sint len) @ '' tokens''
            in Inr (c_string result))"

subsection \<open>Heaps that call sequences produce\<close>

text \<open>
  The heaps reachable from the empty one by the two functions that change the heap.
  A release that runs into undefined behaviour has no successor heap.
\<close>

inductive reachable :: "heap \<Rightarrow> bool" where
  reachable_init: "reachable Map.empty"
| reachable_load:
    "reachable h \<Longrightarrow> new_ok h p \<Longrightarrow> reachable (fst (nativeLoadModel h p modelPath))"
| reachable_free:
    "reachable h \<Longrightarrow> nativeFreeModel h modelPtr = Inr h' \<Longrightarrow> reachable h'"

text \<open>The text that \<open>nativeGenerate\<close> puts before the model path.\<close>

definition response_prefix :: string where
  "response_prefix =
     ''Generated response from llama.cpp model. '' @
     ''This is a placeholder implementation. '' @
     ''In a real implementation, this would use the actual llama.cpp library '' @
     ''to generate text based on the GGUF model loaded from: ''"

section \<open>The synthesis bridge: \<open>SherpaONNXBridge.h\<close>\<close>

text \<open>
  The header declares the interface only; an \<open>NSInteger\<close> is a signed 64-bit integer.
\<close>

type_synonym NSInteger = "64 word"

text \<open>
  Modelled from the spec: the implementation of \<open>SherpaONNXBridge\<close> is missing (only the
  header is present). An initialised instance carries the speaker count and the sample
  rate of its model.
\<close>

record SherpaONNXBridge =
  speakers :: NSInteger
  rate :: NSInteger

text \<open>
  Modelled from the spec: the implementation of \<open>numberOfSpeakers\<close> is missing; a pure
  accessor of the instance.
\<close>

definition numberOfSpeakers :: "SherpaONNXBridge \<Rightarrow> NSInteger" where
  "numberOfSpeakers self = speakers self"

text \<open>
  Modelled from the spec: the implementation of \<open>isValidSpeaker:\<close> is missing;
  \<open>0 <= id < NumberOfSpeakers()\<close>, compared as signed integers.
\<close>

definition isValidSpeaker :: "SherpaONNXBridge \<Rightarrow> NSInteger \<Rightarrow> bool" where
  "isValidSpeaker self speakerId \<longleftrightarrow>
     0 \<le>s speakerId \<and> speakerId <s numberOfSpeakers self"

section \<open>Auxiliary facts\<close>

subsection \<open>C strings and decimal numerals\<close>

lemma c_string_id: "CHR 0x00 \<notin> set s \<Longrightarrow> c_string s = s"
  by (auto simp add: c_string_def takeWhile_eq_all_conv)

lemma c_string_no_nul: "CHR 0x00 \<notin> set (c_string s)"
  by (auto simp: c_string_def dest: set_takeWhileD)

lemma digit_not_nul:
  assumes "n < 10"
  shows "''0123456789'' ! n \<noteq> CHR 0x00"
proof -
  have "''0123456789'' ! n \<in> set ''0123456789''"
    using assms by (intro nth_mem) simp
  then show ?thesis by auto
qed

lemma decimal_no_nul: "CHR 0x00 \<notin> set (decimal n)"
proof (induction n rule: decimal.induct)
  case (1 n)
  show ?case
  proof (cases "n < 10")
    case True
    then show ?thesis
      using digit_not_nul [of n] by (subst decimal.simps) auto
  next
    case False
    have "n mod 10 < 10" by simp
    from digit_not_nul [OF this] 1 False show ?thesis
      by (subst decimal.simps) auto
  qed
qed

subsection \<open>Reading small words as signed integers\<close>

lemma sint_small32:
  assumes "uint (w :: 64 word) < 2 ^ 31"
  shows "sint (ucast w :: 32 word) = uint w"
proof -
  have u: "uint (ucast w :: 32 word) = uint w"
    using assms by (simp add: unsigned_ucast_eq take_bit_int_eq_self)
  have lo: "- (2 ^ 31) \<le> uint w"
    by (rule order_trans [of _ 0]) simp_all
  have "sint (ucast w :: 32 word) = signed_take_bit 31 (uint (ucast w :: 32 word))"
    by (simp add: sint_uint)
  also have "\<dots> = uint w"
    unfolding u using lo assms by (rule signed_take_bit_int_eq_self)
  finally show ?thesis .
qed

lemma sint_of_nat32:
  assumes "n < 2 ^ 31"
  shows "sint (of_nat n :: 32 word) = int n"
proof -
  have lo: "- (2 ^ 31) \<le> int n"
    by simp
  have "int n < int (2 ^ 31)"
    using assms by (simp only: of_nat_less_iff)
  then have hi: "int n < 2 ^ 31"
    by simp
  have "sint (word_of_int (int n) :: 32 word) = signed_take_bit (LENGTH(32) - 1) (int n)"
    by (rule sint_sbintrunc')
  then have "sint (of_nat n :: 32 word) = signed_take_bit 31 (int n)"
    by simp
  also have "\<dots> = int n"
    using lo hi by (rule signed_take_bit_int_eq_self)
  finally show ?thesis .
qed

lemma sint_narrow_size:
  assumes "n < 2 ^ 31"
  shows "sint (ucast (of_nat n :: size_t) :: jsize) = int n"
proof -
  have "n < 2 ^ 64"
    using assms by (rule less_trans) simp
  then have u: "uint (of_nat n :: size_t) = int n"
    by (simp add: unsigned_of_nat take_bit_nat_eq_self)
  have "int n < int (2 ^ 31)"
    using assms by (simp only: of_nat_less_iff)
  then have "uint (of_nat n :: size_t) < 2 ^ 31"
    by (simp add: u)
  then have "sint (ucast (of_nat n :: size_t) :: jsize) = uint (of_nat n :: size_t)"
    by (rule sint_small32)
  with u show ?thesis by simp
qed

subsection \<open>The tokenizer loop\<close>

lemma pseudo_token_range:
  assumes "vocab \<noteq> 0" "uint vocab \<le> 2 ^ 31"
  shows "0 \<le> sint (pseudo_token sg vocab input pos) \<and>
         sint (pseudo_token sg vocab input pos) < uint vocab"
proof -
  define x :: size_t where
    "x = scast (char_to_int sg (input ! pos) * 31) + of_nat pos"
  have "uint vocab \<noteq> 0"
    using assms(1) by (simp add: uint_0_iff)
  then have pos: "0 < uint vocab"
    using uint_ge_0 [of vocab] by linarith
  have lt: "uint (x mod vocab) < uint vocab"
    using pos by (simp add: uint_mod)
  with assms(2) have "uint (x mod vocab) < 2 ^ 31" by linarith
  then have "sint (ucast (x mod vocab) :: 32 word) = uint (x mod vocab)"
    by (rule sint_small32)
  with lt show ?thesis
    by (simp add: pseudo_token_def x_def)
qed

lemma tokenize_loop_eq:
  "vocab \<noteq> 0 \<Longrightarrow>
   tokenize_loop sg vocab input pos tokens =
     Inr (tokens @ map (pseudo_token sg vocab input) [pos..<length input])"
proof (induction sg vocab input pos tokens rule: tokenize_loop.induct)
  case (1 sg vocab input pos tokens)
  show ?case
  proof (cases "pos < length input")
    case True
    with 1 show ?thesis
      by (subst tokenize_loop.simps) (simp add: upt_conv_Cons)
  next
    case False
    then show ?thesis
      by (subst tokenize_loop.simps) simp
  qed
qed

subsection \<open>What every reachable heap satisfies\<close>

lemma reachable_null: "reachable h \<Longrightarrow> h 0 = None"
proof (induction rule: reachable.induct)
  case reachable_init
  show ?case by simp
next
  case (reachable_load h p modelPath)
  then show ?case
    by (simp add: nativeLoadModel_def new_ok_def)
next
  case (reachable_free h modelPtr h')
  then show ?case
    by (auto simp: nativeFreeModel_def split: if_splits option.splits)
qed

lemma reachable_fields:
  "reachable h \<Longrightarrow> h p = Some m \<Longrightarrow>
   vocab_size m = 32000 \<and> context_size m = 2048 \<and> loaded m \<and> CHR 0x00 \<notin> set (model_path m)"
proof (induction arbitrary: p m rule: reachable.induct)
  case reachable_init
  then show ?case by simp
next
  case (reachable_load h q modelPath)
  show ?case
  proof (cases "p = q")
    case True
    with reachable_load.prems show ?thesis
      by (auto simp: nativeLoadModel_def LlamaModel_ctor_def c_string_no_nul)
  next
    case False
    with reachable_load.prems have "h p = Some m"
      by (simp add: nativeLoadModel_def)
    then show ?thesis by (rule reachable_load.IH)
  qed
next
  case (reachable_free h modelPtr h')
  from reachable_free.hyps(2) reachable_free.prems have "h p = Some m"
    by (auto simp: nativeFreeModel_def split: if_splits option.splits)
  then show ?case by (rule reachable_free.IH)
qed

subsection \<open>Calls on a live handle\<close>

lemma live_tokenize:
  assumes "reachable h" "h modelPtr = Some model"
  shows "nativeTokenize sg h modelPtr text =
           (let tokens = map (pseudo_token sg 32000 (c_string text)) [0..<length (c_string text)];
                len = (ucast (of_nat (length tokens) :: size_t) :: jsize)
            in if sint len < 0 then Inl NegativeArraySize
               else Inr (Some (take (nat (sint len)) tokens)))"
proof -
  from reachable_fields [OF assms] have f: "vocab_size model = 32000" "loaded model"
    by simp_all
  from reachable_null [OF assms(1)] assms(2) have nz: "modelPtr \<noteq> 0"
    by auto
  have "tokenize_loop sg 32000 (c_string text) 0 [] =
          Inr ([] @ map (pseudo_token sg 32000 (c_string text)) [0..<length (c_string text)])"
    by (rule tokenize_loop_eq) simp
  with f nz assms(2) show ?thesis
    by (simp add: nativeTokenize_def Let_def)
qed

lemma live_tokenize_small:
  assumes "reachable h" "h modelPtr = Some model" "length (c_string text) < 2 ^ 31"
  shows "nativeTokenize sg h modelPtr text =
           Inr (Some (map (pseudo_token sg 32000 (c_string text)) [0..<length (c_string text)]))"
  by (simp add: live_tokenize [OF assms(1,2)] Let_def sint_narrow_size [OF assms(3)])

lemma live_tokenize_subset:
  assumes "reachable h" "h modelPtr = Some model"
    and "nativeTokenize sg h modelPtr text = Inr (Some tokens)"
  shows "set tokens \<subseteq> pseudo_token sg 32000 (c_string text) ` {0..<length (c_string text)}"
proof -
  let ?all = "map (pseudo_token sg 32000 (c_string text)) [0..<length (c_string text)]"
  from assms(3) obtain n where "tokens = take n ?all"
    unfolding live_tokenize [OF assms(1,2)] Let_def by (auto split: if_splits)
  then have "set tokens \<subseteq> set ?all"
    by (simp only: set_take_subset)
  then show ?thesis by simp
qed

lemma live_detokenize:
  assumes "reachable h" "h modelPtr = Some model" "length tokens < 2 ^ 31"
  shows "nativeDetokenize h modelPtr tokens =
           Inr (''Detokenized text from '' @ decimal (length tokens) @ '' tokens'')"
proof -
  from reachable_fields [OF assms(1,2)] have f: "loaded model"
    by simp
  from reachable_null [OF assms(1)] assms(2) have nz: "modelPtr \<noteq> 0"
    by auto
  have n: "to_string (sint (of_nat (length tokens) :: jsize)) = decimal (length tokens)"
    by (simp add: sint_of_nat32 [OF assms(3)] to_string_def)
  have "CHR 0x00 \<notin> set (''Detokenized text from '' @ decimal (length tokens) @ '' tokens'')"
    using decimal_no_nul [of "length tokens"] by simp
  then have "c_string (''Detokenized text from '' @ decimal (length tokens) @ '' tokens'') =
               ''Detokenized text from '' @ decimal (length tokens) @ '' tokens''"
    by (rule c_string_id)
  with f nz assms(2) n show ?thesis
    by (simp add: nativeDetokenize_def Let_def)
qed

lemma live_generate:
  assumes "reachable h" "h modelPtr = Some model"
  shows "nativeGenerate h modelPtr prompt maxTokens temperature topP topK =
           Inr (response_prefix @ model_path model)"
proof -
  from reachable_fields [OF assms] have f: "loaded model" "CHR 0x00 \<notin> set (model_path model)"
    by simp_all
  from reachable_null [OF assms(1)] assms(2) have nz: "modelPtr \<noteq> 0"
    by auto
  have "CHR 0x00 \<notin> set (response_prefix @ model_path model)"
    using f(2) by (simp add: response_prefix_def)
  then have "c_string (response_prefix @ model_path model) = response_prefix @ model_path model"
    by (rule c_string_id)
  with f(1) nz assms(2) show ?thesis
    by (simp add: nativeGenerate_def Let_def response_prefix_def)
qed

lemma live_accessors:
  assumes "reachable h" "h modelPtr = Some model"
  shows "nativeGetVocabSize h modelPtr = Inr 32000 \<and>
         nativeGetContextSize h modelPtr = Inr 2048 \<and>
         nativeGetModelSize modelPtr = 524288000"
proof -
  from reachable_fields [OF assms] have f: "vocab_size model = 32000" "context_size model = 2048"
    by simp_all
  from reachable_null [OF assms(1)] assms(2) have nz: "modelPtr \<noteq> 0"
    by auto
  from f nz assms(2) show ?thesis
    by (simp add: nativeGetVocabSize_def nativeGetContextSize_def nativeGetModelSize_def)
qed

subsection \<open>Two concrete heaps\<close>

text \<open>
  The heap after one load into the empty heap, with \<open>new\<close> returning address 4096,
  and the heap after a second load at address 8192.
\<close>

lemma load_reachable_4096:
  "reachable (fst (nativeLoadModel Map.empty 4096 ''model.gguf''))"
  by (rule reachable_load [OF reachable_init]) (simp add: new_ok_def)

lemma load_heap_4096:
  "fst (nativeLoadModel Map.empty 4096 ''model.gguf'') 4096 = 
    Some \<lparr>model_path = ''model.gguf'', vocab_size = 32000, context_size = 2048, loaded = True\<rparr>"
  by (simp add: nativeLoadModel_def LlamaModel_ctor_def c_string_def)

lemma load_reachable_8192:
  "reachable (fst (nativeLoadModel (fst (nativeLoadModel Map.empty 4096 ''model.gguf'')) 8192 ''other.gguf''))"
  by (rule reachable_load [OF load_reachable_4096])
     (simp add: new_ok_def nativeLoadModel_def)

lemma load_heap_8192:
  "fst (nativeLoadModel (fst (nativeLoadModel Map.empty 4096 ''model.gguf'')) 8192 ''other.gguf'') 4096 =
     Some \<lparr>model_path = ''model.gguf'', vocab_size = 32000, context_size = 2048, loaded = True\<rparr>"
  by (simp add: nativeLoadModel_def LlamaModel_ctor_def c_string_def)

section \<open>The claims\<close>

text \<open>
  A valid loaded handle is a handle \<open>modelPtr\<close> with \<open>h modelPtr = Some model\<close> in a
  reachable heap \<open>h\<close>: the address of an object that a load created and no release has
  deleted since.
\<close>

subsection \<open>Loading\<close>

text \<open>
  C1 (as amended). \<open>nativeLoadModel\<close> never opens the path and never returns the zero
  handle: for every path, whether or not a model file exists there, it returns the
  non-null address of a new model whose \<open>model_path\<close> is the path, whose sizes are the
  constructor's constants and whose \<open>loaded\<close> flag is set.
\<close>

theorem load_never_null:
  assumes "new_ok h p"
  shows "snd (nativeLoadModel h p modelPath) \<noteq> 0 \<and>
         fst (nativeLoadModel h p modelPath) (snd (nativeLoadModel h p modelPath)) =
           Some \<lparr>model_path = c_string modelPath, vocab_size = 32000,
                 context_size = 2048, loaded = True\<rparr>"
  using assms by (simp add: nativeLoadModel_def LlamaModel_ctor_def new_ok_def)

text \<open>The amended claim at the path \<open>missing/path\<close>.\<close>

theorem load_never_null_witness:
  "new_ok Map.empty 4096 \<and>
   snd (nativeLoadModel Map.empty 4096 ''missing/path'') \<noteq> 0 \<and>
   fst (nativeLoadModel Map.empty 4096 ''missing/path'')
       (snd (nativeLoadModel Map.empty 4096 ''missing/path'')) =
     Some \<lparr>model_path = ''missing/path'', vocab_size = 32000,
           context_size = 2048, loaded = True\<rparr>"
proof -
  have ok: "new_ok Map.empty 4096"
    by (simp add: new_ok_def)
  have p: "c_string ''missing/path'' = ''missing/path''"
    by (simp add: c_string_def)
  from load_never_null [OF ok, of "''missing/path''"] ok p show ?thesis
    by simp
qed

text \<open>
  The claim as stated fails: loading \<open>missing/path\<close> yields the handle 4096, the
  address that \<open>new\<close> returned, not 0.
\<close>

theorem load_missing_path_counterexample:
  "new_ok Map.empty 4096 \<and>
   snd (nativeLoadModel Map.empty 4096 ''missing/path'') = 4096 \<and>
   snd (nativeLoadModel Map.empty 4096 ''missing/path'') \<noteq> 0"
  by (simp add: nativeLoadModel_def new_ok_def)

subsection \<open>Tokenizing\<close>

text \<open>
  C2. For every valid loaded handle and every input text, on either kind of \<open>char\<close>,
  every token \<open>t\<close> of an array that \<open>nativeTokenize\<close> returns satisfies
  \<open>0 \<le> t < vocabSize\<close>, where \<open>vocabSize\<close> is what \<open>nativeGetVocabSize\<close> returns for
  the handle; and for a text of fewer than \<open>2^31\<close> bytes an array is returned.
\<close>

theorem tokens_in_vocab:
  assumes "reachable h" "h modelPtr = Some model"
  shows "\<exists>vocabSize.
           nativeGetVocabSize h modelPtr = Inr vocabSize \<and>
           (\<forall>tokens. nativeTokenize sg h modelPtr text = Inr (Some tokens) \<longrightarrow>
              (\<forall>t \<in> set tokens. 0 \<le> sint t \<and> sint t < sint vocabSize)) \<and>
           (length (c_string text) < 2 ^ 31 \<longrightarrow>
              (\<exists>tokens. nativeTokenize sg h modelPtr text = Inr (Some tokens)))"
proof -
  from reachable_fields [OF assms] have f: "vocab_size model = 32000"
    by simp
  from reachable_null [OF assms(1)] assms(2) have nz: "modelPtr \<noteq> 0"
    by auto
  have v: "nativeGetVocabSize h modelPtr = Inr 32000"
    using f nz assms(2) by (simp add: nativeGetVocabSize_def)
  have r: "0 \<le> sint (pseudo_token sg 32000 input pos) \<and>
           sint (pseudo_token sg 32000 input pos) < sint (32000 :: jlong)" for input pos
    using pseudo_token_range [of 32000 sg input pos] by simp
  have range: "\<forall>t \<in> set tokens. 0 \<le> sint t \<and> sint t < sint (32000 :: jlong)"
    if "nativeTokenize sg h modelPtr text = Inr (Some tokens)" for tokens
    using live_tokenize_subset [OF assms that] r by auto
  have some: "\<exists>tokens. nativeTokenize sg h modelPtr text = Inr (Some tokens)"
    if "length (c_string text) < 2 ^ 31"
    using live_tokenize_small [OF assms that, of sg] by simp
  from v range some show ?thesis
    by blast
qed

text \<open>
  C2 on the two bytes of a UTF-8 encoded letter, both at least \<open>0x80\<close>, with a signed
  \<open>char\<close>.
\<close>

theorem tokens_in_vocab_witness:
  "reachable (fst (nativeLoadModel Map.empty 4096 ''model.gguf'')) \<and>
   fst (nativeLoadModel Map.empty 4096 ''model.gguf'') 4096 =
     Some \<lparr>model_path = ''model.gguf'', vocab_size = 32000,
           context_size = 2048, loaded = True\<rparr> \<and>
   nativeTokenize True (fst (nativeLoadModel Map.empty 4096 ''model.gguf'')) 4096
       [CHR 0xC3, CHR 0xA9] = Inr (Some [13725, 12920]) \<and>
   nativeGetVocabSize (fst (nativeLoadModel Map.empty 4096 ''model.gguf'')) 4096 = Inr 32000 \<and>
   0 \<le> sint (13725 :: jint) \<and> sint (13725 :: jint) < sint (32000 :: jlong) \<and>
   0 \<le> sint (12920 :: jint) \<and> sint (12920 :: jint) < sint (32000 :: jlong)"
proof -
  let ?h = "fst (nativeLoadModel Map.empty 4096 ''model.gguf'')"
  note r = load_reachable_4096 and l = load_heap_4096
  have t: "nativeTokenize True ?h 4096 [CHR 0xC3, CHR 0xA9] = Inr (Some [13725, 12920])"
    by (subst live_tokenize_small [OF r l])
       (simp_all add: c_string_def pseudo_token_def char_to_int_def upt_rec)
  have v: "nativeGetVocabSize ?h 4096 = Inr 32000"
    by (simp add: nativeGetVocabSize_def l)
  from tokens_in_vocab [OF r l, of True "[CHR 0xC3, CHR 0xA9]"] t v
  have "0 \<le> sint (13725 :: jint) \<and> sint (13725 :: jint) < sint (32000 :: jlong) \<and>
        0 \<le> sint (12920 :: jint) \<and> sint (12920 :: jint) < sint (32000 :: jlong)"
    by simp
  with r l t v show ?thesis
    by (intro conjI) simp_all
qed

text \<open>
  C7 (as amended). For every valid loaded handle and every input text of fewer than
  \<open>2^31\<close> bytes, \<open>nativeTokenize\<close> returns one token for each byte of the C string it
  is given; for a text with no NUL byte (as every string from \<open>GetStringUTFChars\<close> is)
  that is one token for each byte of the text.
\<close>

theorem token_count:
  assumes "reachable h" "h modelPtr = Some model" "length (c_string text) < 2 ^ 31"
  shows "\<exists>tokens.
           nativeTokenize sg h modelPtr text = Inr (Some tokens) \<and>
           length tokens = length (c_string text) \<and>
           (CHR 0x00 \<notin> set text \<longrightarrow> length tokens = length text)"
  using live_tokenize_small [OF assms, of sg] by (auto simp: c_string_id)

text \<open>The amended claim on the text \<open>hi\<close>: two bytes, two tokens.\<close>

theorem token_count_witness:
  "reachable (fst (nativeLoadModel Map.empty 4096 ''model.gguf'')) \<and>
   fst (nativeLoadModel Map.empty 4096 ''model.gguf'') 4096 =
     Some \<lparr>model_path = ''model.gguf'', vocab_size = 32000,
           context_size = 2048, loaded = True\<rparr> \<and>
   length (c_string ''hi'') < 2 ^ 31 \<and>
   CHR 0x00 \<notin> set ''hi'' \<and>
   nativeTokenize False (fst (nativeLoadModel Map.empty 4096 ''model.gguf'')) 4096 ''hi'' =
     Inr (Some [3224, 3256]) \<and>
   length [3224, 3256 :: jint] = length ''hi''"
proof -
  let ?h = "fst (nativeLoadModel Map.empty 4096 ''model.gguf'')"
  note r = load_reachable_4096 and l = load_heap_4096
  have t: "nativeTokenize False ?h 4096 ''hi'' = Inr (Some [3224, 3256])"
    by (subst live_tokenize_small [OF r l])
       (simp_all add: c_string_def pseudo_token_def char_to_int_def upt_rec)
  have n: "length (c_string ''hi'') < 2 ^ 31"
    by (simp add: c_string_def)
  from token_count [OF r l n, of False] r l n t
  show ?thesis by simp
qed

text \<open>
  The claim as stated fails on a text of \<open>2^32 + 2\<close> bytes, here 1431655766 copies of
  the three UTF-8 bytes of the euro sign: \<open>tokens.size()\<close> narrows to the \<open>jsize\<close> 2,
  and the array that is returned holds two tokens, not one for each byte.
\<close>

theorem token_count_counterexample:
  "length (c_string (concat (replicate 1431655766 [CHR 0xE2, CHR 0x82, CHR 0xAC]))) = 4294967298 \<and>
   nativeTokenize False (fst (nativeLoadModel Map.empty 4096 ''model.gguf'')) 4096
       (concat (replicate 1431655766 [CHR 0xE2, CHR 0x82, CHR 0xAC])) =
     Inr (Some [7006, 4031]) \<and>
   length [7006, 4031 :: jint] = 2"
proof -
  let ?h = "fst (nativeLoadModel Map.empty 4096 ''model.gguf'')"
  let ?euro = "[CHR 0xE2, CHR 0x82, CHR 0xAC]"
  let ?rest = "concat (replicate 1431655765 ?euro)"
  let ?txt = "concat (replicate 1431655766 ?euro)"
  note r = load_reachable_4096 and l = load_heap_4096
  have "CHR 0x00 \<notin> set ?txt"
    by (simp add: set_replicate_conv_if)
  then have c: "c_string ?txt = ?txt"
    by (rule c_string_id)
  have n: "length ?txt = 4294967298"
    by (simp add: length_concat sum_list_replicate)
  have "(1431655766 :: nat) = Suc 1431655765"
    by simp
  then have "?txt = concat (replicate (Suc 1431655765) ?euro)"
    by (rule arg_cong)
  then have split: "?txt = CHR 0xE2 # CHR 0x82 # CHR 0xAC # ?rest"
    by (simp only: replicate_Suc concat.simps append.simps)
  have p0: "pseudo_token False 32000 ?txt 0 = 7006"
    by (subst split) (simp add: pseudo_token_def char_to_int_def)
  have p1: "pseudo_token False 32000 ?txt 1 = 4031"
    by (subst split) (simp add: pseudo_token_def char_to_int_def)
  have len: "(ucast (of_nat 4294967298 :: size_t) :: jsize) = 2"
    by simp
  have "take 2 [0..<4294967298] = [0..<0 + 2]"
    by (rule take_upt) simp
  also have "[0..<0 + 2] = [0, Suc 0]"
    by (simp add: upt_rec)
  finally have idx: "take 2 [0..<4294967298] = [0, Suc 0]" .
  have "take 2 (map (pseudo_token False 32000 ?txt) [0..<4294967298]) =
          map (pseudo_token False 32000 ?txt) (take 2 [0..<4294967298])"
    by (rule take_map)
  also have "\<dots> = [7006, 4031]"
    using p0 p1 by (simp only: idx list.map One_nat_def)
  finally have tk: "take 2 (map (pseudo_token False 32000 ?txt) [0..<4294967298]) = [7006, 4031]" .
  have t: "nativeTokenize False ?h 4096 ?txt = Inr (Some [7006, 4031])"
    unfolding live_tokenize [OF r l] c n Let_def length_map length_upt diff_zero len
    using tk by simp
  from c n t show ?thesis
    by simp
qed

subsection \<open>Detokenizing\<close>

text \<open>
  C3 (as amended). \<open>nativeDetokenize\<close> is not an inverse of \<open>nativeTokenize\<close>: for every
  valid loaded handle and every text of fewer than \<open>2^31\<close> bytes, detokenizing the
  tokens of the text returns the placeholder \<open>Detokenized text from N tokens\<close>, where
  \<open>N\<close> is the number of bytes of the text in decimal. Only the length of the text
  survives the round trip.
\<close>

theorem detokenize_placeholder:
  assumes "reachable h" "h modelPtr = Some model" "length (c_string text) < 2 ^ 31"
  shows "\<exists>tokens.
           nativeTokenize sg h modelPtr text = Inr (Some tokens) \<and>
           nativeDetokenize h modelPtr tokens =
             Inr (''Detokenized text from '' @ decimal (length (c_string text)) @ '' tokens'')"
proof -
  let ?ts = "map (pseudo_token sg 32000 (c_string text)) [0..<length (c_string text)]"
  have "length ?ts < 2 ^ 31"
    using assms(3) by simp
  from live_detokenize [OF assms(1,2) this] live_tokenize_small [OF assms, of sg]
  show ?thesis by simp
qed

text \<open>The amended claim on the text \<open>hi\<close>.\<close>

theorem detokenize_placeholder_witness:
  "reachable (fst (nativeLoadModel Map.empty 4096 ''model.gguf'')) \<and>
   fst (nativeLoadModel Map.empty 4096 ''model.gguf'') 4096 =
     Some \<lparr>model_path = ''model.gguf'', vocab_size = 32000,
           context_size = 2048, loaded = True\<rparr> \<and>
   length (c_string ''hi'') < 2 ^ 31 \<and>
   nativeTokenize False (fst (nativeLoadModel Map.empty 4096 ''model.gguf'')) 4096 ''hi'' =
     Inr (Some [3224, 3256]) \<and>
   nativeDetokenize (fst (nativeLoadModel Map.empty 4096 ''model.gguf'')) 4096 [3224, 3256] =
     Inr ''Detokenized text from 2 tokens''"
proof -
  let ?h = "fst (nativeLoadModel Map.empty 4096 ''model.gguf'')"
  note r = load_reachable_4096 and l = load_heap_4096
  have c: "c_string ''hi'' = ''hi''"
    by (simp add: c_string_def)
  have n: "length (c_string ''hi'') < 2 ^ 31"
    by (simp add: c)
  have t: "nativeTokenize False ?h 4096 ''hi'' = Inr (Some [3224, 3256])"
    by (subst live_tokenize_small [OF r l])
       (simp_all add: c pseudo_token_def char_to_int_def upt_rec)
  have d: "decimal (Suc (Suc 0)) = ''2''"
    by (subst decimal.simps) simp
  from detokenize_placeholder [OF r l n, of False] r l n t c d
  show ?thesis by simp
qed

text \<open>
  The claim as stated fails: the round trip of \<open>hi\<close> is not \<open>hi\<close>, and the texts
  \<open>hi\<close> and \<open>no\<close> have one and the same round trip.
\<close>

theorem roundtrip_counterexample:
  "nativeTokenize False (fst (nativeLoadModel Map.empty 4096 ''model.gguf'')) 4096 ''hi'' =
     Inr (Some [3224, 3256]) \<and>
   nativeDetokenize (fst (nativeLoadModel Map.empty 4096 ''model.gguf'')) 4096 [3224, 3256] =
     Inr ''Detokenized text from 2 tokens'' \<and>
   nativeTokenize False (fst (nativeLoadModel Map.empty 4096 ''model.gguf'')) 4096 ''no'' =
     Inr (Some [3410, 3442]) \<and>
   nativeDetokenize (fst (nativeLoadModel Map.empty 4096 ''model.gguf'')) 4096 [3410, 3442] =
     Inr ''Detokenized text from 2 tokens'' \<and>
   ''Detokenized text from 2 tokens'' \<noteq> ''hi''"
proof -
  let ?h = "fst (nativeLoadModel Map.empty 4096 ''model.gguf'')"
  note r = load_reachable_4096 and l = load_heap_4096
  have t1: "nativeTokenize False ?h 4096 ''hi'' = Inr (Some [3224, 3256])"
    by (subst live_tokenize_small [OF r l])
       (simp_all add: c_string_def pseudo_token_def char_to_int_def upt_rec)
  have t2: "nativeTokenize False ?h 4096 ''no'' = Inr (Some [3410, 3442])"
    by (subst live_tokenize_small [OF r l])
       (simp_all add: c_string_def pseudo_token_def char_to_int_def upt_rec)
  have d: "decimal (Suc (Suc 0)) = ''2''"
    by (subst decimal.simps) simp
  have d1: "nativeDetokenize ?h 4096 [3224, 3256] = Inr ''Detokenized text from 2 tokens''"
    by (subst live_detokenize [OF r l]) (simp_all add: d)
  have d2: "nativeDetokenize ?h 4096 [3410, 3442] = Inr ''Detokenized text from 2 tokens''"
    by (subst live_detokenize [OF r l]) (simp_all add: d)
  from t1 t2 d1 d2 show ?thesis by simp
qed

subsection \<open>The null handle\<close>

text \<open>
  C4. On the null handle, \<open>nativeGenerate\<close> returns the string
  \<open>Error: Model not loaded\<close>, \<open>nativeTokenize\<close> returns the null array,
  \<open>nativeDetokenize\<close> returns the empty string, and \<open>nativeGetVocabSize\<close>,
  \<open>nativeGetContextSize\<close> and \<open>nativeGetModelSize\<close> return 0; none of them runs into
  undefined behaviour.
\<close>

theorem null_handle_sentinels:
  "nativeGenerate h 0 prompt maxTokens temperature topP topK = Inr ''Error: Model not loaded'' \<and>
   nativeTokenize sg h 0 text = Inr None \<and>
   nativeDetokenize h 0 tokens = Inr '''' \<and>
   nativeGetVocabSize h 0 = Inr 0 \<and>
   nativeGetContextSize h 0 = Inr 0 \<and>
   nativeGetModelSize 0 = 0"
  by (simp add: nativeGenerate_def nativeTokenize_def nativeDetokenize_def
      nativeGetVocabSize_def nativeGetContextSize_def nativeGetModelSize_def)

subsection \<open>Releasing\<close>

text \<open>
  C5 (as amended). \<open>nativeFreeModel\<close> on the null handle is a no-op that leaves the heap
  as it is. On a live handle it deletes the object. The code keeps no record of released
  handles: a second \<open>nativeFreeModel\<close> on the same non-null handle, with no load in
  between, deletes a dangling pointer, which is undefined behaviour and not a no-op.
\<close>

theorem release_once:
  "nativeFreeModel h 0 = Inr h \<and>
   (modelPtr \<noteq> 0 \<and> h modelPtr = Some model \<longrightarrow>
      nativeFreeModel h modelPtr = Inr (h(modelPtr := None)) \<and>
      nativeFreeModel (h(modelPtr := None)) modelPtr = Inl InvalidFree)"
  by (simp add: nativeFreeModel_def)

text \<open>The amended claim on the handle that a load into the empty heap returned.\<close>

theorem release_once_witness:
  "(4096 :: jlong) \<noteq> 0 \<and>
   fst (nativeLoadModel Map.empty 4096 ''model.gguf'') 4096 =
     Some \<lparr>model_path = ''model.gguf'', vocab_size = 32000,
           context_size = 2048, loaded = True\<rparr> \<and>
   nativeFreeModel (fst (nativeLoadModel Map.empty 4096 ''model.gguf'')) 0 =
     Inr (fst (nativeLoadModel Map.empty 4096 ''model.gguf'')) \<and>
   nativeFreeModel (fst (nativeLoadModel Map.empty 4096 ''model.gguf'')) 4096 =
     Inr ((fst (nativeLoadModel Map.empty 4096 ''model.gguf''))(4096 := None)) \<and>
   nativeFreeModel ((fst (nativeLoadModel Map.empty 4096 ''model.gguf''))(4096 := None)) 4096 =
     Inl InvalidFree"
proof -
  have nz: "(4096 :: jlong) \<noteq> 0"
    by simp
  from release_once [of "fst (nativeLoadModel Map.empty 4096 ''model.gguf'')" 4096] nz
    load_heap_4096
  show ?thesis by simp
qed

text \<open>
  The claim as stated fails: load, release, release. The first release empties the heap,
  the second is an invalid \<open>delete\<close>.
\<close>

theorem double_release_counterexample:
  "new_ok Map.empty 4096 \<and>
   snd (nativeLoadModel Map.empty 4096 ''model.gguf'') = 4096 \<and>
   nativeFreeModel (fst (nativeLoadModel Map.empty 4096 ''model.gguf'')) 4096 = Inr Map.empty \<and>
   nativeFreeModel Map.empty 4096 = Inl InvalidFree"
  by (simp add: nativeLoadModel_def nativeFreeModel_def new_ok_def)

text \<open>
  C6 (as amended). Follow a handle through the state machine from any reachable heap.
  While it is \<open>Unloaded\<close> (no load has returned it yet and the caller holds the null
  handle) every call reports its sentinel and follows no pointer. A load makes it
  \<open>Loaded\<close> and a release then succeeds. A handle is a raw address and the code keeps
  no record of releases: right after the release (\<open>Released\<close>) \<open>nativeGenerate\<close>,
  \<open>nativeTokenize\<close>, \<open>nativeDetokenize\<close>, \<open>nativeGetVocabSize\<close> and
  \<open>nativeGetContextSize\<close> on the handle read the deleted object, which is undefined
  behaviour, and \<open>nativeGetModelSize\<close> returns 524288000, not the sentinel 0. Nor is
  \<open>Released\<close> terminal: \<open>new\<close> may hand out the address again, and after such a load
  the old handle is the handle of the new model and \<open>nativeGenerate\<close> on it succeeds.
\<close>

theorem state_machine_checks:
  assumes "reachable h0" "new_ok h0 p"
    and "nativeLoadModel h0 p modelPath = (h1, handle)"
    and "nativeFreeModel h1 handle = Inr h2"
  shows "(nativeGenerate h0 0 prompt maxTokens temperature topP topK =
            Inr ''Error: Model not loaded'' \<and>
          nativeTokenize sg h0 0 text = Inr None \<and>
          nativeDetokenize h0 0 tokens = Inr '''' \<and>
          nativeGetVocabSize h0 0 = Inr 0 \<and>
          nativeGetContextSize h0 0 = Inr 0 \<and>
          nativeGetModelSize 0 = 0) \<and>
         (nativeGenerate h2 handle prompt maxTokens temperature topP topK = Inl InvalidRead \<and>
          nativeTokenize sg h2 handle text = Inl InvalidRead \<and>
          nativeDetokenize h2 handle tokens = Inl InvalidRead \<and>
          nativeGetVocabSize h2 handle = Inl InvalidRead \<and>
          nativeGetContextSize h2 handle = Inl InvalidRead \<and>
          nativeGetModelSize handle = 524288000) \<and>
         (new_ok h2 p \<and>
          (\<forall>modelPath'.
             snd (nativeLoadModel h2 p modelPath') = handle \<and>
             nativeGenerate (fst (nativeLoadModel h2 p modelPath')) handle
                 prompt maxTokens temperature topP topK =
               Inr (response_prefix @ c_string modelPath')))"
proof -
  from assms(3) have hd: "handle = p" and h1: "h1 = fst (nativeLoadModel h0 p modelPath)"
    by (auto simp: nativeLoadModel_def Let_def)
  from assms(2) have nz: "p \<noteq> 0"
    by (simp add: new_ok_def)
  have live: "h1 p \<noteq> None"
    by (simp add: h1 nativeLoadModel_def)
  from assms(4) live nz have h2: "h2 = h1(p := None)"
    by (auto simp: nativeFreeModel_def hd split: option.splits)
  then have gone: "h2 p = None"
    by simp
  have r1: "reachable h1"
    unfolding h1 using assms(1,2) by (rule reachable_load)
  have r2: "reachable h2"
    using r1 assms(4) by (rule reachable_free)
  have ok: "new_ok h2 p"
    using nz gone by (simp add: new_ok_def)
  have unloaded:
    "nativeGenerate h0 0 prompt maxTokens temperature topP topK =
       Inr ''Error: Model not loaded'' \<and>
     nativeTokenize sg h0 0 text = Inr None \<and>
     nativeDetokenize h0 0 tokens = Inr '''' \<and>
     nativeGetVocabSize h0 0 = Inr 0 \<and>
     nativeGetContextSize h0 0 = Inr 0 \<and>
     nativeGetModelSize 0 = 0"
    by (simp add: nativeGenerate_def nativeTokenize_def nativeDetokenize_def
        nativeGetVocabSize_def nativeGetContextSize_def nativeGetModelSize_def)
  have released:
    "nativeGenerate h2 handle prompt maxTokens temperature topP topK = Inl InvalidRead \<and>
     nativeTokenize sg h2 handle text = Inl InvalidRead \<and>
     nativeDetokenize h2 handle tokens = Inl InvalidRead \<and>
     nativeGetVocabSize h2 handle = Inl InvalidRead \<and>
     nativeGetContextSize h2 handle = Inl InvalidRead \<and>
     nativeGetModelSize handle = 524288000"
    using nz gone
    by (simp add: hd nativeGenerate_def nativeTokenize_def nativeDetokenize_def
        nativeGetVocabSize_def nativeGetContextSize_def nativeGetModelSize_def)
  have again:
    "snd (nativeLoadModel h2 p modelPath') = handle \<and>
     nativeGenerate (fst (nativeLoadModel h2 p modelPath')) handle
         prompt maxTokens temperature topP topK =
       Inr (response_prefix @ c_string modelPath')" for modelPath'
  proof -
    let ?h3 = "fst (nativeLoadModel h2 p modelPath')"
    have r3: "reachable ?h3"
      using r2 ok by (rule reachable_load)
    have l3: "?h3 p = Some ((LlamaModel_ctor (c_string modelPath'))\<lparr>loaded := True\<rparr>)"
      by (simp add: nativeLoadModel_def)
    have "nativeGenerate ?h3 p prompt maxTokens temperature topP topK =
            Inr (response_prefix @ c_string modelPath')"
      by (simp add: live_generate [OF r3 l3] LlamaModel_ctor_def)
    then show ?thesis
      by (simp add: hd nativeLoadModel_def)
  qed
  from unloaded released ok again show ?thesis
    by blast
qed

text \<open>
  The amended claim on the empty heap: load at address 4096, release, and a second load
  that is given address 4096 again.
\<close>

theorem state_machine_checks_witness:
  "reachable Map.empty \<and> new_ok Map.empty 4096 \<and>
   nativeLoadModel Map.empty 4096 ''model.gguf'' =
     (fst (nativeLoadModel Map.empty 4096 ''model.gguf''), 4096) \<and>
   nativeFreeModel (fst (nativeLoadModel Map.empty 4096 ''model.gguf'')) 4096 = Inr Map.empty \<and>
   nativeGenerate Map.empty 0 ''hi'' 10 0 0 40 = Inr ''Error: Model not loaded'' \<and>
   nativeTokenize False Map.empty 0 ''hi'' = Inr None \<and>
   nativeDetokenize Map.empty 0 [1, 2] = Inr '''' \<and>
   nativeGetVocabSize Map.empty 0 = Inr 0 \<and>
   nativeGetContextSize Map.empty 0 = Inr 0 \<and>
   nativeGetModelSize 0 = 0 \<and>
   nativeGenerate Map.empty 4096 ''hi'' 10 0 0 40 = Inl InvalidRead \<and>
   nativeTokenize False Map.empty 4096 ''hi'' = Inl InvalidRead \<and>
   nativeDetokenize Map.empty 4096 [1, 2] = Inl InvalidRead \<and>
   nativeGetVocabSize Map.empty 4096 = Inl InvalidRead \<and>
   nativeGetContextSize Map.empty 4096 = Inl InvalidRead \<and>
   nativeGetModelSize 4096 = 524288000 \<and>
   snd (nativeLoadModel Map.empty 4096 ''other.gguf'') = 4096 \<and>
   nativeGenerate (fst (nativeLoadModel Map.empty 4096 ''other.gguf'')) 4096 ''hi'' 10 0 0 40 =
     Inr (response_prefix @ ''other.gguf'')"
proof -
  have ok: "new_ok Map.empty 4096"
    by (simp add: new_ok_def)
  have ld: "nativeLoadModel Map.empty 4096 ''model.gguf'' =
              (fst (nativeLoadModel Map.empty 4096 ''model.gguf''), 4096)"
    by (simp add: nativeLoadModel_def)
  have fr: "nativeFreeModel (fst (nativeLoadModel Map.empty 4096 ''model.gguf'')) 4096 =
              Inr Map.empty"
    by (simp add: nativeFreeModel_def nativeLoadModel_def)
  have c: "c_string ''other.gguf'' = ''other.gguf''"
    by (simp add: c_string_def)
  note s = state_machine_checks
             [OF reachable_init ok ld fr, of "''hi''" 10 0 0 40 False "''hi''" "[1, 2]"]
  from s have a: "snd (nativeLoadModel Map.empty 4096 ''other.gguf'') = 4096 \<and>
      nativeGenerate (fst (nativeLoadModel Map.empty 4096 ''other.gguf'')) 4096 ''hi'' 10 0 0 40 =
        Inr (response_prefix @ ''other.gguf'')"
    using c by metis
  from s a reachable_init ok ld fr show ?thesis
    by (intro conjI) simp_all
qed

text \<open>
  The claim as stated fails: after load and release, \<open>nativeGenerate\<close> and
  \<open>nativeGetVocabSize\<close> on the released handle read the deleted object, and
  \<open>nativeGetModelSize\<close> reports 500 MB instead of an error.
\<close>

theorem released_handle_counterexample:
  "nativeFreeModel (fst (nativeLoadModel Map.empty 4096 ''model.gguf'')) 4096 = Inr Map.empty \<and>
   nativeGenerate Map.empty 4096 ''hi'' 10 0 0 40 = Inl InvalidRead \<and>
   nativeGetVocabSize Map.empty 4096 = Inl InvalidRead \<and>
   nativeGetModelSize 4096 = 524288000 \<and>
   nativeGetModelSize 4096 \<noteq> 0"
  by (simp add: nativeLoadModel_def nativeFreeModel_def nativeGenerate_def
      nativeGetVocabSize_def nativeGetModelSize_def)

subsection \<open>Speakers\<close>

text \<open>
  C8. For every initialised synthesizer instance and every integer \<open>speakerId\<close>,
  \<open>isValidSpeaker\<close> holds if and only if \<open>0 \<le> speakerId < numberOfSpeakers\<close>, the
  integers read as signed.
\<close>

theorem isValidSpeaker_iff:
  "isValidSpeaker self speakerId \<longleftrightarrow>
     0 \<le> sint speakerId \<and> sint speakerId < sint (numberOfSpeakers self)"
  by (simp add: isValidSpeaker_def word_sle_eq word_sless_alt)

subsection \<open>Generating\<close>

text \<open>
  C9. For every valid loaded handle, the string that \<open>nativeGenerate\<close> returns is the
  fixed prefix followed by the model path stored in the handle's object; it is the same
  for any two choices of prompt, \<open>maxTokens\<close>, temperature, \<open>topP\<close> and \<open>topK\<close>.
\<close>

theorem generate_ignores_parameters:
  assumes "reachable h" "h modelPtr = Some model"
  shows "nativeGenerate h modelPtr prompt maxTokens temperature topP topK =
           Inr (response_prefix @ model_path model) \<and>
         nativeGenerate h modelPtr prompt maxTokens temperature topP topK =
           nativeGenerate h modelPtr prompt' maxTokens' temperature' topP' topK'"
  by (simp add: live_generate [OF assms])

text \<open>C9 on two calls that differ in every argument but the handle.\<close>

theorem generate_ignores_parameters_witness:
  "reachable (fst (nativeLoadModel Map.empty 4096 ''model.gguf'')) \<and>
   fst (nativeLoadModel Map.empty 4096 ''model.gguf'') 4096 =
     Some \<lparr>model_path = ''model.gguf'', vocab_size = 32000,
           context_size = 2048, loaded = True\<rparr> \<and>
   nativeGenerate (fst (nativeLoadModel Map.empty 4096 ''model.gguf'')) 4096 ''hi'' 10 0 0 40 =
     Inr (response_prefix @ ''model.gguf'') \<and>
   nativeGenerate (fst (nativeLoadModel Map.empty 4096 ''model.gguf'')) 4096 ''hi'' 10 0 0 40 =
     nativeGenerate (fst (nativeLoadModel Map.empty 4096 ''model.gguf'')) 4096
       ''another prompt'' 500 1 2 3"
proof -
  note r = load_reachable_4096 and l = load_heap_4096
  note g = generate_ignores_parameters
             [OF r l, of "''hi''" 10 0 0 40 "''another prompt''" 500 1 2 3]
  from g have g1:
    "nativeGenerate (fst (nativeLoadModel Map.empty 4096 ''model.gguf'')) 4096 ''hi'' 10 0 0 40 =
       Inr (response_prefix @ ''model.gguf'')"
    by simp
  from r l g1 g [THEN conjunct2] show ?thesis
    by (intro conjI)
qed

subsection \<open>The size accessors\<close>

text \<open>
  C10. For the handle that a load returns, whatever the path, \<open>nativeGetVocabSize\<close>
  returns 32000, \<open>nativeGetContextSize\<close> returns 2048 and \<open>nativeGetModelSize\<close> returns
  524288000; the same holds in every reachable heap in which the handle is live, so the
  values do not change from call to call.
\<close>

theorem accessor_constants:
  assumes "reachable h" "new_ok h p" "nativeLoadModel h p modelPath = (h', handle)"
  shows "nativeGetVocabSize h' handle = Inr 32000 \<and>
         nativeGetContextSize h' handle = Inr 2048 \<and>
         nativeGetModelSize handle = 524288000 \<and>
         (\<forall>h''. reachable h'' \<and> h'' handle \<noteq> None \<longrightarrow>
            nativeGetVocabSize h'' handle = Inr 32000 \<and>
            nativeGetContextSize h'' handle = Inr 2048 \<and>
            nativeGetModelSize handle = 524288000)"
proof -
  from assms(3) have h': "h' = fst (nativeLoadModel h p modelPath)"
    by simp
  have r: "reachable h'"
    unfolding h' using assms(1,2) by (rule reachable_load)
  from assms(3) have "\<exists>model. h' handle = Some model"
    by (auto simp: nativeLoadModel_def Let_def)
  then obtain model where "h' handle = Some model" ..
  from live_accessors [OF r this] live_accessors show ?thesis
    by auto
qed

text \<open>
  C10 on the handle of a first load, right after it and after a second load elsewhere.
\<close>

theorem accessor_constants_witness:
  "reachable Map.empty \<and> new_ok Map.empty 4096 \<and>
   nativeLoadModel Map.empty 4096 ''model.gguf'' =
     (fst (nativeLoadModel Map.empty 4096 ''model.gguf''), 4096) \<and>
   nativeGetVocabSize (fst (nativeLoadModel Map.empty 4096 ''model.gguf'')) 4096 = Inr 32000 \<and>
   nativeGetContextSize (fst (nativeLoadModel Map.empty 4096 ''model.gguf'')) 4096 = Inr 2048 \<and>
   nativeGetModelSize 4096 = 524288000 \<and>
   reachable (fst (nativeLoadModel (fst (nativeLoadModel Map.empty 4096 ''model.gguf''))
                8192 ''other.gguf'')) \<and>
   fst (nativeLoadModel (fst (nativeLoadModel Map.empty 4096 ''model.gguf''))
          8192 ''other.gguf'') 4096 \<noteq> None \<and>
   nativeGetVocabSize (fst (nativeLoadModel (fst (nativeLoadModel Map.empty 4096 ''model.gguf''))
                             8192 ''other.gguf'')) 4096 = Inr 32000 \<and>
   nativeGetContextSize (fst (nativeLoadModel (fst (nativeLoadModel Map.empty 4096 ''model.gguf''))
                               8192 ''other.gguf'')) 4096 = Inr 2048"
proof -
  have ok: "new_ok Map.empty 4096"
    by (simp add: new_ok_def)
  have e: "nativeLoadModel Map.empty 4096 ''model.gguf'' =
             (fst (nativeLoadModel Map.empty 4096 ''model.gguf''), 4096)"
    by (simp add: nativeLoadModel_def)
  have l: "fst (nativeLoadModel (fst (nativeLoadModel Map.empty 4096 ''model.gguf''))
                  8192 ''other.gguf'') 4096 \<noteq> None"
    by (simp add: load_heap_8192)
  from accessor_constants [OF reachable_init ok e] load_reachable_8192 l reachable_init ok e
  show ?thesis by simp
qed

end
